theory Spec2Isabelle
  imports Main
begin

section \<open>Values shared by the two programs\<close>

text \<open>
  The repository has two programs: \<^verbatim>\<open>ingest.py\<close> builds a FAISS index from a CSV
  catalogue, \<^verbatim>\<open>app.py\<close> serves a Streamlit chat over that index. Python exceptions
  are values of \<open>error\<close>; a computation that may raise returns \<open>error + 'a\<close> with
  \<open>Inl\<close> for the exception. Python \<^verbatim>\<open>str\<close> values are HOL strings.
\<close>

datatype error =
    KeyError string
  | FileNotFoundError string
  | EmptyDataError string
  | IndexError string
  | ValueError string
  | RuntimeError string
  | AttributeError string
  | ProviderError string

text \<open>\<^verbatim>\<open>str(e)\<close>: a \<^verbatim>\<open>KeyError\<close> prints its key in quotes.\<close>

fun str_error :: "error \<Rightarrow> string" where
  "str_error (KeyError k) = [CHR 0x27] @ k @ [CHR 0x27]"
| "str_error (FileNotFoundError m) = m"
| "str_error (EmptyDataError m) = m"
| "str_error (IndexError m) = m"
| "str_error (ValueError m) = m"
| "str_error (RuntimeError m) = m"
| "str_error (AttributeError m) = m"
| "str_error (ProviderError m) = m"

text \<open>
  \<^verbatim>\<open>os.getenv("OPENAI_API_KEY")\<close> is \<open>None\<close> when the variable is unset. Python's
  \<^verbatim>\<open>not v\<close> holds for \<^verbatim>\<open>None\<close> and for the empty string.
\<close>

fun truthy :: "string option \<Rightarrow> bool" where
  "truthy None = False"
| "truthy (Some s) = (s \<noteq> [])"

record document =
  page_content :: string
  metadata :: "(string \<times> string) list"

text \<open>
  A FAISS index holds one embedding vector per document, in insertion order. The
  code never looks inside a vector, so its type is a parameter.
\<close>

type_synonym 'v index = "('v \<times> document) list"

text \<open>
  The requests the language model receives from a
  \<^verbatim>\<open>ConversationalRetrievalChain\<close>: the question generator is given the chat
  history and the follow-up question, the answering step the retrieved documents
  and the (possibly rephrased) question.
\<close>

datatype role = Human | AI

type_synonym turn = "role \<times> string"

datatype llm_request =
    Condense "turn list" string
  | Answer "document list" string

text \<open>
  The external services and libraries are parameters of the model: the embedding
  endpoint behind \<^verbatim>\<open>OpenAIEmbeddings\<close>, the chat endpoint behind
  \<^verbatim>\<open>ChatOpenAI\<close>, and the nearest-neighbour search of the FAISS index
  (index, query vector, k). The first two may raise.
\<close>

record 'v services =
  embed_text :: "string \<Rightarrow> error + 'v"
  chat_completion :: "llm_request \<Rightarrow> error + string"
  faiss_search :: "'v index \<Rightarrow> 'v \<Rightarrow> nat \<Rightarrow> document list"

text \<open>Every use of a service is recorded, in order, in a trace.\<close>

datatype 'v call =
    Embedding string
  | Completion llm_request
  | Similarity 'v nat

text \<open>
  Constructing \<^verbatim>\<open>OpenAIEmbeddings()\<close> or \<^verbatim>\<open>ChatOpenAI()\<close> reads the key from the
  environment and raises when it is not there. (The messages of exceptions that
  libraries raise are shortened here and below.)
\<close>

definition openai_client :: "string option \<Rightarrow> error + unit" where
  "openai_client key =
     (if truthy key then Inr ()
      else Inl (ValueError ''Did not find openai_api_key''))"

section \<open>ingest.py\<close>

subsection \<open>The catalogue as pandas reads it\<close>

text \<open>
  A CSV file after tokenisation: the header's column names and, for every record,
  the text of its field under each column (consulted at the header's columns
  only; a field left out of a record is the empty text). The text of a field
  stands for the value pandas parses from it, so a field of a numeric column is
  given as pandas prints the number.
\<close>

type_synonym csv_record = "string \<Rightarrow> string"

record csv_table =
  header :: "string list"
  records :: "csv_record list"

text \<open>
  A cell of a data frame is a missing value or a value, kept by the text that
  \<^verbatim>\<open>str\<close> and an f-string print for it. The f-string of a missing value is
  \<^verbatim>\<open>nan\<close>.
\<close>

datatype cell = NaN | Val string

fun render :: "cell \<Rightarrow> string" where
  "render NaN = ''nan''"
| "render (Val s) = s"

text \<open>A row of a data frame (a pandas \<^verbatim>\<open>Series\<close>): its cells by column name.\<close>

type_synonym series = "string \<rightharpoonup> cell"

record data_frame =
  columns :: "string list"
  rows :: "series list"

text \<open>
  \<^verbatim>\<open>pd.read_csv(CSV_PATH)\<close> is called with its defaults, so every field whose text
  is one of the default missing-value markers is read as a missing value.
\<close>

definition STR_NA_VALUES :: "string list" where
  "STR_NA_VALUES =
     ['''', ''#N/A'', ''#N/A N/A'', ''#NA'', ''-1.#IND'', ''-1.#QNAN'', ''-NaN'',
      ''-nan'', ''1.#IND'', ''1.#QNAN'', ''<NA>'', ''N/A'', ''NA'', ''NULL'', ''NaN'',
      ''None'', ''n/a'', ''nan'', ''null'']"

definition na_filter :: "string \<Rightarrow> cell" where
  "na_filter s = (if s \<in> set STR_NA_VALUES then NaN else Val s)"

definition frame_row :: "string list \<Rightarrow> csv_record \<Rightarrow> series" where
  "frame_row cols r = (\<lambda>c. if c \<in> set cols then Some (na_filter (r c)) else None)"

definition read_csv :: "csv_table \<Rightarrow> error + data_frame" where
  "read_csv t =
     (if header t = [] then Inl (EmptyDataError ''No columns to parse from file'')
      else Inr \<lparr>columns = header t, rows = map (frame_row (header t)) (records t)\<rparr>)"

text \<open>\<^verbatim>\<open>df.dropna(subset=["Name"])\<close>: a frame without that column raises.\<close>

definition dropna_Name :: "data_frame \<Rightarrow> error + data_frame" where
  "dropna_Name df =
     (if ''Name'' \<in> set (columns df)
      then Inr (df\<lparr>rows := filter (\<lambda>r. r ''Name'' \<noteq> Some NaN) (rows df)\<rparr>)
      else Inl (KeyError ''Name''))"

text \<open>\<^verbatim>\<open>df.fillna("")\<close>: every missing value of every column becomes the empty string.\<close>

fun fill_cell :: "cell \<Rightarrow> cell" where
  "fill_cell NaN = Val ''''"
| "fill_cell (Val s) = Val s"

definition fill_row :: "series \<Rightarrow> series" where
  "fill_row row = (\<lambda>c. map_option fill_cell (row c))"

definition fillna :: "data_frame \<Rightarrow> data_frame" where
  "fillna df = df\<lparr>rows := map fill_row (rows df)\<rparr>"

text \<open>\<^verbatim>\<open>row.get(key, default)\<close>: the default is used when the row has no such column.\<close>

definition series_get :: "series \<Rightarrow> string \<Rightarrow> string \<Rightarrow> string" where
  "series_get row key dflt = (case row key of None \<Rightarrow> dflt | Some c \<Rightarrow> render c)"

subsection \<open>One document per row\<close>

text \<open>
  \<^verbatim>\<open>str.strip()\<close> removes the whitespace characters at both ends of a string.
  Python's whitespace characters are the ten of one byte below and the
  characters U+0085, U+00A0, U+1680, U+2000 to U+200A, U+2028, U+2029, U+202F,
  U+205F and U+3000, which are two or three bytes in UTF-8.
\<close>

definition isspace :: "char \<Rightarrow> bool" where
  "isspace c \<longleftrightarrow>
     c \<in> set [CHR 0x09, CHR ''\<newline>'', CHR 0x0B, CHR 0x0C, CHR 0x0D,
              CHR 0x1C, CHR 0x1D, CHR 0x1E, CHR 0x1F, CHR '' '']"

definition unicode_spaces :: "string list" where
  "unicode_spaces =
     [[CHR 0xC2, CHR 0x85], [CHR 0xC2, CHR 0xA0], [CHR 0xE1, CHR 0x9A, CHR 0x80],
      [CHR 0xE2, CHR 0x80, CHR 0x80], [CHR 0xE2, CHR 0x80, CHR 0x81],
      [CHR 0xE2, CHR 0x80, CHR 0x82], [CHR 0xE2, CHR 0x80, CHR 0x83],
      [CHR 0xE2, CHR 0x80, CHR 0x84], [CHR 0xE2, CHR 0x80, CHR 0x85],
      [CHR 0xE2, CHR 0x80, CHR 0x86], [CHR 0xE2, CHR 0x80, CHR 0x87],
      [CHR 0xE2, CHR 0x80, CHR 0x88], [CHR 0xE2, CHR 0x80, CHR 0x89],
      [CHR 0xE2, CHR 0x80, CHR 0x8A], [CHR 0xE2, CHR 0x80, CHR 0xA8],
      [CHR 0xE2, CHR 0x80, CHR 0xA9], [CHR 0xE2, CHR 0x80, CHR 0xAF],
      [CHR 0xE2, CHR 0x81, CHR 0x9F], [CHR 0xE3, CHR 0x80, CHR 0x80]]"

text \<open>
  Dropping the whitespace characters a byte string starts with: one byte that
  is whitespace, or two or three bytes that are one of the given codes.
\<close>

fun drop_spaces :: "string list \<Rightarrow> string \<Rightarrow> string" where
  "drop_spaces codes [] = []"
| "drop_spaces codes (a # s) =
     (if isspace a then drop_spaces codes s
      else
        (case s of
           [] \<Rightarrow> [a]
         | b # t \<Rightarrow>
             (if [a, b] \<in> set codes then drop_spaces codes t
              else
                (case t of
                   [] \<Rightarrow> [a, b]
                 | c # u \<Rightarrow>
                     (if [a, b, c] \<in> set codes then drop_spaces codes u
                      else a # b # c # u)))))"

definition lstrip :: "string \<Rightarrow> string" where
  "lstrip s = drop_spaces unicode_spaces s"

text \<open>At the end of the string the bytes of a character are met last byte first.\<close>

definition rstrip :: "string \<Rightarrow> string" where
  "rstrip s = rev (drop_spaces (map rev unicode_spaces) (rev s))"

definition strip :: "string \<Rightarrow> string" where
  "strip s = rstrip (lstrip s)"

text \<open>The f-string of lines 40 to 62, before \<^verbatim>\<open>.strip()\<close>.\<close>

definition text_template :: "series \<Rightarrow> string" where
  "text_template row =
     ''\<newline>Tool Name: '' @ series_get row ''Name'' '''' @
     ''\<newline>\<newline>Category: '' @ series_get row ''Category'' '''' @
     ''\<newline>\<newline>Primary Task: '' @ series_get row ''Primary Task'' '''' @
     ''\<newline>\<newline>Description: '' @ series_get row ''Short Description'' '''' @
     ''\<newline>\<newline>Keywords: '' @ series_get row ''Keywords'' '''' @
     ''\<newline>\<newline>Technologies: '' @ series_get row ''technologies'' '''' @
     ''\<newline>\<newline>Industry: '' @ series_get row ''industry'' '''' @
     ''\<newline>\<newline>Pricing: '' @ series_get row ''Pricing'' ''Not specified'' @
     ''\<newline>\<newline>Country: '' @ series_get row ''Country'' '''' @
     ''\<newline>\<newline>Year Founded: '' @ series_get row ''Year Founded'' '''' @
     ''\<newline>\<newline>Website: '' @ series_get row ''Website'' '''' @
     ''\<newline>''"

definition text_content :: "series \<Rightarrow> string" where
  "text_content row = strip (text_template row)"

definition metadata_of :: "series \<Rightarrow> (string \<times> string) list" where
  "metadata_of row =
     [(''name'', series_get row ''Name'' ''''),
      (''category'', series_get row ''Category'' ''''),
      (''primary_task'', series_get row ''Primary Task'' ''''),
      (''pricing'', series_get row ''Pricing'' ''Not specified''),
      (''website'', series_get row ''Website'' ''''),
      (''country'', series_get row ''Country'' ''''),
      (''year_founded'', series_get row ''Year Founded'' ''''),
      (''technologies'', series_get row ''technologies'' '''')]"

definition make_document :: "series \<Rightarrow> document" where
  "make_document row = \<lparr>page_content = text_content row, metadata = metadata_of row\<rparr>"

text \<open>The loop over \<^verbatim>\<open>df.iterrows()\<close> appends one document per row, in order.\<close>

fun documents_of_rows :: "series list \<Rightarrow> document list" where
  "documents_of_rows [] = []"
| "documents_of_rows (row # rest) = make_document row # documents_of_rows rest"

definition CSV_PATH :: string where
  "CSV_PATH = ''data/ai_tools.csv''"

text \<open>
  \<^verbatim>\<open>load_and_prepare_data\<close>, from the file at \<^verbatim>\<open>CSV_PATH\<close> (\<open>None\<close> when there is
  no such file). Its progress lines on standard output are not part of the model.
\<close>

definition load_and_prepare_data :: "csv_table option \<Rightarrow> error + document list" where
  "load_and_prepare_data file =
     (case file of
        None \<Rightarrow> Inl (FileNotFoundError CSV_PATH)
      | Some t \<Rightarrow>
          (case read_csv t of
             Inl e \<Rightarrow> Inl e
           | Inr df \<Rightarrow>
               (case dropna_Name df of
                  Inl e \<Rightarrow> Inl e
                | Inr df1 \<Rightarrow> Inr (documents_of_rows (rows (fillna df1))))))"

subsection \<open>Building and saving the index\<close>

text \<open>
  What \<^verbatim>\<open>ingest.py\<close> reads and writes: the environment's API key (after
  \<^verbatim>\<open>load_dotenv()\<close>), the catalogue file, the saved index under \<^verbatim>\<open>vectorstore/\<close>
  (\<open>None\<close> when nothing has been saved), and the trace of service calls.
\<close>

record 'v world =
  api_key :: "string option"
  csv_file :: "csv_table option"
  index_dir :: "'v index option"
  calls :: "'v call list"

text \<open>
  \<^verbatim>\<open>FAISS.from_documents\<close> asks the embedding service for the vector of every
  document's text, in order, and builds the index from the vectors; an exception
  of the service propagates. (The library sends the texts in batches; the model
  has one request per text.) An empty list of documents makes the library raise
  when it reads the dimension of the first vector.
\<close>

fun embed_documents ::
  "'v services \<Rightarrow> string list \<Rightarrow> 'v call list \<Rightarrow> (error + 'v list) \<times> 'v call list" where
  "embed_documents svc [] tr = (Inr [], tr)"
| "embed_documents svc (t # ts) tr =
     (case embed_text svc t of
        Inl e \<Rightarrow> (Inl e, tr @ [Embedding t])
      | Inr v \<Rightarrow>
          (case embed_documents svc ts (tr @ [Embedding t]) of
             (Inl e, tr') \<Rightarrow> (Inl e, tr')
           | (Inr vs, tr') \<Rightarrow> (Inr (v # vs), tr')))"

definition FAISS_from_documents ::
  "'v services \<Rightarrow> document list \<Rightarrow> 'v call list \<Rightarrow> (error + 'v index) \<times> 'v call list" where
  "FAISS_from_documents svc docs tr =
     (case embed_documents svc (map page_content docs) tr of
        (Inl e, tr') \<Rightarrow> (Inl e, tr')
      | (Inr vs, tr') \<Rightarrow>
          (if vs = [] then (Inl (IndexError ''list index out of range''), tr')
           else (Inr (zip vs docs), tr')))"

text \<open>
  \<^verbatim>\<open>build_vectorstore\<close>: the index is written (\<^verbatim>\<open>os.makedirs\<close>, \<^verbatim>\<open>save_local\<close>) only
  after \<^verbatim>\<open>FAISS.from_documents\<close> has returned.
\<close>

definition build_vectorstore ::
  "'v services \<Rightarrow> document list \<Rightarrow> 'v world \<Rightarrow> (error + unit) \<times> 'v world" where
  "build_vectorstore svc documents w =
     (case openai_client (api_key w) of
        Inl e \<Rightarrow> (Inl e, w)
      | Inr _ \<Rightarrow>
          (case FAISS_from_documents svc documents (calls w) of
             (Inl e, tr) \<Rightarrow> (Inl e, w\<lparr>calls := tr\<rparr>)
           | (Inr vectorstore, tr) \<Rightarrow>
               (Inr (), w\<lparr>calls := tr, index_dir := Some vectorstore\<rparr>)))"

text \<open>The lines \<^verbatim>\<open>main\<close> prints itself (the traceback goes to standard error).\<close>

definition banner :: "string list" where
  "banner =
     [[CHR 0xE2, CHR 0x9C, CHR 0xA8] @ '' AIToolBuzz Vectorstore Builder '' @
        [CHR 0xE2, CHR 0x9C, CHR 0xA8],
      replicate 50 CHR ''='']"

definition missing_key_report :: "string list" where
  "missing_key_report =
     [[CHR 0xE2, CHR 0x9A, CHR 0xA0, CHR 0xEF, CHR 0xB8, CHR 0x8F] @
        '' Error: OPENAI_API_KEY not found in environment variables'',
      ''Please set your OpenAI API key:'',
      ''  export OPENAI_API_KEY='' @ [CHR 0x27] @ ''your-api-key-here'' @ [CHR 0x27]]"

definition missing_csv_report :: "string list" where
  "missing_csv_report =
     [[CHR 0xE2, CHR 0x9A, CHR 0xA0, CHR 0xEF, CHR 0xB8, CHR 0x8F] @
        '' Error: CSV file not found at '' @ CSV_PATH,
      ''\<newline>Please download the dataset from Kaggle:'',
      ''  https://www.kaggle.com/datasets/devadigax/aitoolbuzz-com-16k-ai-tools-database/'',
      ''\<newline>And place it at: '' @ CSV_PATH,
      ''\<newline>Alternatively, update the CSV_PATH variable in this script.'']"

definition error_report :: "error \<Rightarrow> string list" where
  "error_report e =
     [[CHR ''\<newline>'', CHR 0xE2, CHR 0x9D, CHR 0x8C] @ '' Error occurred: '' @ str_error e,
      ''\<newline>Please check:'',
      ''1. Your OpenAI API key is valid'',
      ''2. The CSV file is in the correct format'',
      ''3. You have sufficient disk space'',
      ''\<newline>Full error trace:'']"

text \<open>
  \<^verbatim>\<open>main\<close> of \<^verbatim>\<open>ingest.py\<close>: the two start-up checks, then the build inside
  \<^verbatim>\<open>try\<close>/\<^verbatim>\<open>except Exception\<close>. It returns what it printed and the world it leaves.
\<close>

definition ingest_main :: "'v services \<Rightarrow> 'v world \<Rightarrow> string list \<times> 'v world" where
  "ingest_main svc w =
     (if \<not> truthy (api_key w) then (banner @ missing_key_report, w)
      else if csv_file w = None then (banner @ missing_csv_report, w)
      else
        (case load_and_prepare_data (csv_file w) of
           Inl e \<Rightarrow> (banner @ error_report e, w)
         | Inr documents \<Rightarrow>
             (case build_vectorstore svc documents w of
                (Inl e, w') \<Rightarrow> (banner @ error_report e, w')
              | (Inr _, w') \<Rightarrow> (banner, w'))))"

section \<open>app.py\<close>

subsection \<open>State of the serving process\<close>

text \<open>
  What a script run shows: \<^verbatim>\<open>st.error\<close>, \<^verbatim>\<open>st.info\<close>, a chat message (role and
  text), the preview of a source document (its number and text), and the box
  Streamlit shows for an exception that the script did not catch. The page
  header, the style sheet and the sidebar's static text are left out.
\<close>

datatype ui =
    StError string
  | StInfo string
  | ChatMessage string string
  | SourcePreview nat string
  | StException error

text \<open>An entry of \<^verbatim>\<open>st.session_state.messages\<close>: the role and the content.\<close>

type_synonym message = "string \<times> string"

text \<open>
  The keys of \<^verbatim>\<open>st.session_state\<close> that the script uses; every browser session has
  its own. \<^verbatim>\<open>messages\<close> absent and \<^verbatim>\<open>messages\<close> empty are one value, since lines 175
  and 176 turn the first into the second before any use. \<^verbatim>\<open>conversation\<close> holds a
  reference to a chain object.
\<close>

record session_state =
  messages :: "message list"
  conversation :: "nat option"
  vectorstore_loaded :: "bool option"
  suggested_prompt :: "string option"

definition new_session :: session_state where
  "new_session =
     \<lparr>messages = [], conversation = None, vectorstore_loaded = None,
      suggested_prompt = None\<rparr>"

text \<open>
  A \<^verbatim>\<open>ConversationalRetrievalChain\<close> object: the vectorstore behind its retriever
  and the buffer of its \<^verbatim>\<open>ConversationBufferMemory\<close>.
\<close>

record 'v chain =
  chain_index :: "'v index"
  chat_memory :: "turn list"

text \<open>
  The serving process: the environment key at its start, the secrets file (\<open>None\<close> when there
  is none), the saved index, the two \<^verbatim>\<open>st.cache_resource\<close> caches, the chain
  objects by address, the sessions by identifier, and the trace of service calls.
  A \<^verbatim>\<open>st.cache_resource\<close> cache is shared by all sessions of the process. The entry
  of \<^verbatim>\<open>load_vectorstore\<close> keeps the returned value and the elements the call showed,
  which a later hit shows again. \<^verbatim>\<open>get_conversation_chain\<close> has one parameter, and
  its name starts with an underscore, so it is not part of the cache key: the
  cache has at most one entry.
\<close>

record 'v process =
  env_key :: "string option"
  secrets :: "(string \<rightharpoonup> string) option"
  disk_index :: "'v index option"
  vectorstore_cache :: "('v index option \<times> ui list) option"
  chain_cache :: "nat option"
  heap :: "'v chain list"
  sessions :: "nat \<Rightarrow> session_state"
  trace :: "'v call list"

text \<open>What the widgets return in one script run.\<close>

record widgets =
  pricing_filter :: "string list"
  button_image :: bool
  button_coding :: bool
  button_writing :: bool
  button_video :: bool
  chat_input :: "string option"

subsection \<open>The cached resources\<close>

text \<open>
  \<^verbatim>\<open>os.environ\<close> as \<^verbatim>\<open>main\<close> finds it. \<open>env_key\<close> is the variable when the process
  starts. Line 237 reads \<^verbatim>\<open>st.secrets\<close> only when that is unset or empty, and
  Streamlit, on reading the secrets file, exports every top-level entry of the
  file to \<^verbatim>\<open>os.environ\<close>: from then on the variable is the file's entry, when the
  file has one.
\<close>

definition environ_key :: "'v process \<Rightarrow> string option" where
  "environ_key p =
     (if truthy (env_key p) then env_key p
      else
        (case secrets p of
           None \<Rightarrow> env_key p
         | Some file \<Rightarrow>
             (case file ''OPENAI_API_KEY'' of None \<Rightarrow> env_key p | Some v \<Rightarrow> Some v)))"

text \<open>The body of \<^verbatim>\<open>load_vectorstore\<close>: any exception is reported and gives \<open>None\<close>.\<close>

definition load_failed :: "error \<Rightarrow> 'v index option \<times> ui list" where
  "load_failed e =
     (None,
      [StError (''Error loading vectorstore: '' @ str_error e),
       StInfo (''Please make sure you'' @ [CHR 0x27] @
               ''ve run ingest.py first to build the index.'')])"

definition load_local :: "'v index option \<Rightarrow> error + 'v index" where
  "load_local dir =
     (case dir of
        None \<Rightarrow> Inl (RuntimeError ''could not open vectorstore/index.faiss for reading'')
      | Some vectorstore \<Rightarrow> Inr vectorstore)"

definition load_vectorstore_body :: "'v process \<Rightarrow> 'v index option \<times> ui list" where
  "load_vectorstore_body p =
     (case openai_client (environ_key p) of
        Inl e \<Rightarrow> load_failed e
      | Inr _ \<Rightarrow>
          (case load_local (disk_index p) of
             Inl e \<Rightarrow> load_failed e
           | Inr vectorstore \<Rightarrow> (Some vectorstore, [])))"

definition load_vectorstore :: "'v process \<Rightarrow> ('v index option \<times> ui list) \<times> 'v process" where
  "load_vectorstore p =
     (case vectorstore_cache p of
        Some entry \<Rightarrow> (entry, p)
      | None \<Rightarrow>
          (load_vectorstore_body p,
           p\<lparr>vectorstore_cache := Some (load_vectorstore_body p)\<rparr>))"

text \<open>
  \<^verbatim>\<open>get_conversation_chain\<close>: on a cache hit the cached chain object is returned,
  whatever the argument; otherwise a new chain with an empty memory is allocated
  and cached. (The prompt template built in the body is not passed to the chain.)
\<close>

definition get_conversation_chain ::
  "'v index \<Rightarrow> 'v process \<Rightarrow> error + nat \<times> 'v process" where
  "get_conversation_chain vectorstore p =
     (case chain_cache p of
        Some a \<Rightarrow> Inr (a, p)
      | None \<Rightarrow>
          (case openai_client (environ_key p) of
             Inl e \<Rightarrow> Inl e
           | Inr _ \<Rightarrow>
               Inr (length (heap p),
                    p\<lparr>heap := heap p @ [\<lparr>chain_index = vectorstore, chat_memory = []\<rparr>],
                      chain_cache := Some (length (heap p))\<rparr>)))"

subsection \<open>Calling the chain\<close>

text \<open>
  One call of the chain on a question. The memory's buffer is the chat history.
  With a non-empty history the question generator rephrases the question; the
  retriever embeds the question and asks the index for \<^verbatim>\<open>k = 10\<close> neighbours; the
  model answers from the documents; then the memory records the question and the
  answer. An exception of a service leaves the memory as it was.
\<close>

definition retriever_k :: nat where
  "retriever_k = 10"

definition invoke_chain ::
  "'v services \<Rightarrow> 'v chain \<Rightarrow> string \<Rightarrow> 'v call list \<Rightarrow>
   (error + string \<times> document list) \<times> 'v chain \<times> 'v call list" where
  "invoke_chain svc ch question tr =
     (let history = chat_memory ch;
          (rephrased, tr1) =
            (if history = [] then (Inr question, tr)
             else (chat_completion svc (Condense history question),
                   tr @ [Completion (Condense history question)]))
      in case rephrased of
           Inl e \<Rightarrow> (Inl e, ch, tr1)
         | Inr q \<Rightarrow>
             (case embed_text svc q of
                Inl e \<Rightarrow> (Inl e, ch, tr1 @ [Embedding q])
              | Inr v \<Rightarrow>
                  (let docs = faiss_search svc (chain_index ch) v retriever_k;
                       tr2 = tr1 @ [Embedding q, Similarity v retriever_k]
                   in case chat_completion svc (Answer docs q) of
                        Inl e \<Rightarrow> (Inl e, ch, tr2 @ [Completion (Answer docs q)])
                      | Inr answer \<Rightarrow>
                          (Inr (answer, docs),
                           ch\<lparr>chat_memory := history @ [(Human, question), (AI, answer)]\<rparr>,
                           tr2 @ [Completion (Answer docs q)]))))"

text \<open>
  \<^verbatim>\<open>st.session_state.conversation({"question": query})\<close>: the session's reference is
  followed to the chain object, which the call updates in place. A session
  without the key raises \<^verbatim>\<open>AttributeError\<close>. (A reference always points to an
  allocated object; the model gives the same error to an address outside the heap.)
\<close>

definition call_conversation ::
  "'v services \<Rightarrow> session_state \<Rightarrow> string \<Rightarrow> 'v process \<Rightarrow>
   (error + string \<times> document list) \<times> 'v process" where
  "call_conversation svc s query p =
     (case conversation s of
        None \<Rightarrow> (Inl (AttributeError ''st.session_state has no attribute conversation''), p)
      | Some a \<Rightarrow>
          (if a < length (heap p) then
             (case invoke_chain svc (heap p ! a) query (trace p) of
                (res, ch', tr') \<Rightarrow> (res, p\<lparr>heap := (heap p)[a := ch'], trace := tr'\<rparr>))
           else (Inl (AttributeError ''st.session_state has no attribute conversation''), p)))"

subsection \<open>One script run\<close>

text \<open>The sidebar's four buttons (lines 153 to 160), tested in this order.\<close>

definition sidebar :: "widgets \<Rightarrow> session_state \<Rightarrow> session_state" where
  "sidebar w s =
     (let s1 = (if button_image w
                then s\<lparr>suggested_prompt := Some ''Show me free AI image generators''\<rparr>
                else s);
          s2 = (if button_coding w
                then s1\<lparr>suggested_prompt := Some ''What are the best AI coding assistants?''\<rparr>
                else s1);
          s3 = (if button_writing w
                then s2\<lparr>suggested_prompt :=
                          Some ''Recommend AI writing and content creation tools''\<rparr>
                else s2)
      in if button_video w
         then s3\<lparr>suggested_prompt := Some ''AI tools for video generation and editing''\<rparr>
         else s3)"

datatype outcome = Completed | Stopped | Raised error

text \<open>
  Lines 175 to 184. The chain is built outside any \<^verbatim>\<open>try\<close>, so an exception of
  \<^verbatim>\<open>get_conversation_chain\<close> ends the script run.
\<close>

definition init_session :: "nat \<Rightarrow> 'v process \<Rightarrow> error option \<times> ui list \<times> 'v process" where
  "init_session sid p =
     (if conversation (sessions p sid) = None then
        (case load_vectorstore p of
           ((None, shown), p1) \<Rightarrow>
             (None, shown,
              p1\<lparr>sessions := (sessions p1)
                    (sid := (sessions p1 sid)\<lparr>vectorstore_loaded := Some False\<rparr>)\<rparr>)
         | ((Some vectorstore, shown), p1) \<Rightarrow>
             (case get_conversation_chain vectorstore p1 of
                Inl e \<Rightarrow> (Some e, shown, p1)
              | Inr (a, p2) \<Rightarrow>
                  (None, shown,
                   p2\<lparr>sessions := (sessions p2)
                         (sid := (sessions p2 sid)\<lparr>conversation := Some a,
                                                   vectorstore_loaded := Some True\<rparr>)\<rparr>)))
      else (None, [], p))"

text \<open>Lines 192 to 196: a suggested prompt is used once and removed.\<close>

definition take_input :: "widgets \<Rightarrow> session_state \<Rightarrow> string option \<times> session_state" where
  "take_input w s =
     (case suggested_prompt s of
        Some prompt \<Rightarrow> (Some prompt, s\<lparr>suggested_prompt := None\<rparr>)
      | None \<Rightarrow> (chat_input w, s))"

definition append_message :: "nat \<Rightarrow> message \<Rightarrow> 'v process \<Rightarrow> 'v process" where
  "append_message sid m p =
     p\<lparr>sessions := (sessions p)
          (sid := (sessions p sid)\<lparr>messages := messages (sessions p sid) @ [m]\<rparr>)\<rparr>"

fun join :: "string \<Rightarrow> string list \<Rightarrow> string" where
  "join sep [] = []"
| "join sep [x] = x"
| "join sep (x # y # ys) = x @ sep @ join sep (y # ys)"

definition pricing_hint :: "string list \<Rightarrow> string" where
  "pricing_hint selected =
     (if selected = [] then []
      else '' Only show tools with pricing: '' @ join '', '' selected @ ''.'')"

text \<open>
  \<^verbatim>\<open>doc.page_content[:300]\<close> keeps 300 characters. In the UTF-8 bytes of a string a
  character is a leading byte and the continuation bytes that follow it.
\<close>

fun is_continuation :: "char \<Rightarrow> bool" where
  "is_continuation (Char b0 b1 b2 b3 b4 b5 b6 b7) = (b7 \<and> \<not> b6)"

fun take_chars :: "nat \<Rightarrow> string \<Rightarrow> string" where
  "take_chars n [] = []"
| "take_chars n (c # cs) =
     (if is_continuation c then c # take_chars n cs
      else (case n of 0 \<Rightarrow> [] | Suc m \<Rightarrow> c # take_chars m cs))"

definition source_previews :: "document list \<Rightarrow> ui list" where
  "source_previews docs =
     map (\<lambda>(i, doc). SourcePreview (i + 1) (take_chars 300 (page_content doc) @ ''...''))
         (enumerate 0 (take 5 docs))"

text \<open>
  Lines 198 to 233, for a non-empty input: the user's message is recorded; when
  the session's \<^verbatim>\<open>vectorstore_loaded\<close> is set, the chain is called inside
  \<^verbatim>\<open>try\<close>/\<^verbatim>\<open>except Exception\<close> and an assistant message is recorded; otherwise
  only an error is shown.
\<close>

definition handle_input ::
  "'v services \<Rightarrow> widgets \<Rightarrow> nat \<Rightarrow> string \<Rightarrow> 'v process \<Rightarrow> ui list \<times> 'v process" where
  "handle_input svc w sid user_input p =
     (let p1 = append_message sid (''user'', user_input) p in
      if vectorstore_loaded (sessions p1 sid) = Some True then
        (case call_conversation svc (sessions p1 sid)
                (user_input @ pricing_hint (pricing_filter w)) p1 of
           (Inr (answer, docs), p2) \<Rightarrow>
             ([ChatMessage ''user'' user_input, ChatMessage ''assistant'' answer]
                @ source_previews docs,
              append_message sid (''assistant'', answer) p2)
         | (Inl e, p2) \<Rightarrow>
             ([ChatMessage ''user'' user_input, StError (''Error: '' @ str_error e)],
              append_message sid (''assistant'', ''Error: '' @ str_error e) p2))
      else
        ([ChatMessage ''user'' user_input,
          StError ''Vectorstore not loaded. Please check the setup.''], p1))"

text \<open>\<^verbatim>\<open>main\<close> of \<^verbatim>\<open>app.py\<close>, run for the session \<open>sid\<close>.\<close>

definition app_main ::
  "'v services \<Rightarrow> widgets \<Rightarrow> nat \<Rightarrow> 'v process \<Rightarrow> outcome \<times> ui list \<times> 'v process" where
  "app_main svc w sid p =
     (let p0 = p\<lparr>sessions := (sessions p)(sid := sidebar w (sessions p sid))\<rparr> in
      case init_session sid p0 of
        (Some e, shown, p1) \<Rightarrow> (Raised e, shown @ [StException e], p1)
      | (None, shown, p1) \<Rightarrow>
          (let history = map (\<lambda>(r, c). ChatMessage r c) (messages (sessions p1 sid)) in
           case take_input w (sessions p1 sid) of
             (user_input, s2) \<Rightarrow>
               (let p2 = p1\<lparr>sessions := (sessions p1)(sid := s2)\<rparr> in
                case user_input of
                  None \<Rightarrow> (Completed, shown @ history, p2)
                | Some text \<Rightarrow>
                    (if text = [] then (Completed, shown @ history, p2)
                     else
                       (case handle_input svc w sid text p2 of
                          (shown2, p3) \<Rightarrow> (Completed, shown @ history @ shown2, p3))))))"

text \<open>
  The script's entry (lines 235 to 247). \<^verbatim>\<open>st.secrets.get\<close> is evaluated only when
  the environment has no key, and raises when there is no secrets file.
\<close>

definition missing_key_message :: string where
  "missing_key_message =
     ''\<newline>        '' @ [CHR 0xE2, CHR 0x9A, CHR 0xA0, CHR 0xEF, CHR 0xB8, CHR 0x8F] @
     '' OpenAI API key not found!\<newline>        \<newline>'' @
     ''        Please set your API key:\<newline>'' @
     ''        - Locally: Set OPENAI_API_KEY environment variable\<newline>'' @
     ''        - Streamlit Cloud: Add OPENAI_API_KEY to your app secrets\<newline>        ''"

definition app_script ::
  "'v services \<Rightarrow> widgets \<Rightarrow> nat \<Rightarrow> 'v process \<Rightarrow> outcome \<times> ui list \<times> 'v process" where
  "app_script svc w sid p =
     (if truthy (env_key p) then app_main svc w sid p
      else
        (case secrets p of
           None \<Rightarrow>
             (Raised (FileNotFoundError ''No secrets files found''),
              [StException (FileNotFoundError ''No secrets files found'')], p)
         | Some file \<Rightarrow>
             (if truthy (file ''OPENAI_API_KEY'') then app_main svc w sid p
              else (Stopped, [StError missing_key_message], p))))"

text \<open>
  The start-up check of line 237 lets the script through when the key is in the
  environment or in the secrets file.
\<close>

definition key_configured :: "'v process \<Rightarrow> bool" where
  "key_configured p \<longleftrightarrow>
     truthy (env_key p) \<or>
     (case secrets p of None \<Rightarrow> False | Some file \<Rightarrow> truthy (file ''OPENAI_API_KEY''))"

text \<open>
  Streamlit runs the script once for every interaction of every session; a
  sequence of runs is a list of widget values and session identifiers. The
  result lists what each run ended with and showed.
\<close>

fun serve ::
  "'v services \<Rightarrow> (widgets \<times> nat) list \<Rightarrow> 'v process \<Rightarrow>
   (outcome \<times> ui list) list \<times> 'v process" where
  "serve svc [] p = ([], p)"
| "serve svc ((w, sid) # runs) p =
     (case app_script svc w sid p of
        (out, shown, p1) \<Rightarrow>
          (case serve svc runs p1 of (outs, p2) \<Rightarrow> ((out, shown) # outs, p2)))"

section \<open>Example inputs\<close>



definition unpriced_catalog :: csv_table where
  "unpriced_catalog =
     \<lparr>header = [''Name'', ''Pricing''], records = [(\<lambda>c. [])(''Name'' := ''Midjourney'')]\<rparr>"

definition example_row :: series where
  "example_row = [''Name'' \<mapsto> Val ''ChatGPT'', ''Website'' \<mapsto> Val ''https://chat.openai.com '']"

definition example_row_rated :: series where
  "example_row_rated = example_row(''Rating'' \<mapsto> Val ''5'')"

text \<open>Services that always answer, and services whose embedding endpoint is down.\<close>

definition working_services :: "nat services" where
  "working_services =
     \<lparr>embed_text = (\<lambda>t. Inr (length t)),
      chat_completion = (\<lambda>r. Inr ''ok''),
      faiss_search = (\<lambda>idx v k. take k (map snd idx))\<rparr>"

definition failing_services :: "nat services" where
  "failing_services =
     \<lparr>embed_text = (\<lambda>t. Inl (ProviderError ''quota exceeded'')),
      chat_completion = (\<lambda>r. Inl (ProviderError ''quota exceeded'')),
      faiss_search = (\<lambda>idx v k. take k (map snd idx))\<rparr>"

definition example_document :: document where
  "example_document = \<lparr>page_content = ''Tool Name: Claude'', metadata = [(''name'', ''Claude'')]\<rparr>"

definition example_world :: "nat world" where
  "example_world =
     \<lparr>api_key = Some ''sk-test'', csv_file = Some unpriced_catalog,
      index_dir = None, calls = []\<rparr>"

definition keyless_world :: "nat world" where
  "keyless_world = example_world\<lparr>api_key := None\<rparr>"

text \<open>A process that has just started, with an index on disk and a key.\<close>

definition fresh_process :: "nat process" where
  "fresh_process =
     \<lparr>env_key = Some ''sk-test'', secrets = None,
      disk_index = Some [(17, example_document)],
      vectorstore_cache = None, chain_cache = None, heap = [],
      sessions = (\<lambda>sid. new_session), trace = []\<rparr>"

definition typed :: "string \<Rightarrow> widgets" where
  "typed text =
     \<lparr>pricing_filter = [], button_image = False, button_coding = False,
      button_writing = False, button_video = False, chat_input = Some text\<rparr>"

text \<open>
  The same process without an index on disk; a process in which session 1 has
  had one exchange; a process whose secrets file has no key and whose
  environment has none.
\<close>

definition unindexed_process :: "nat process" where
  "unindexed_process = fresh_process\<lparr>disk_index := None\<rparr>"

definition loaded_process :: "nat process" where
  "loaded_process =
     \<lparr>env_key = Some ''sk-test'', secrets = None,
      disk_index = Some [(17, example_document)],
      vectorstore_cache = Some (Some [(17, example_document)], []),
      chain_cache = Some 0,
      heap = [\<lparr>chain_index = [(17, example_document)],
               chat_memory = [(Human, ''hi''), (AI, ''ok'')]\<rparr>],
      sessions = (\<lambda>sid. new_session)
        (1 := \<lparr>messages = [(''user'', ''hi''), (''assistant'', ''ok'')],
               conversation = Some 0, vectorstore_loaded = Some True,
               suggested_prompt = None\<rparr>),
      trace = []\<rparr>"

definition keyless_process :: "nat process" where
  "keyless_process = fresh_process\<lparr>env_key := None, secrets := Some Map.empty\<rparr>"

text \<open>A process without a key in the environment and without a secrets file.\<close>

definition secretless_process :: "nat process" where
  "secretless_process = fresh_process\<lparr>env_key := None, secrets := None\<rparr>"

text \<open>The fresh process after session 1 has asked one question.\<close>

definition shared_process :: "nat process" where
  "shared_process =
     \<lparr>env_key = Some ''sk-test'', secrets = None,
      disk_index = Some [(17, example_document)],
      vectorstore_cache = Some (Some [(17, example_document)], []),
      chain_cache = Some 0,
      heap = [\<lparr>chain_index = [(17, example_document)],
               chat_memory = [(Human, ''my password is hunter2''), (AI, ''ok'')]\<rparr>],
      sessions = (\<lambda>sid. new_session)
        (1 := \<lparr>messages = [(''user'', ''my password is hunter2''), (''assistant'', ''ok'')],
               conversation = Some 0, vectorstore_loaded = Some True,
               suggested_prompt = None\<rparr>),
      trace = [Embedding ''my password is hunter2'', Similarity 22 10,
               Completion (Answer [example_document] ''my password is hunter2'')]\<rparr>"

section \<open>Properties of ingest.py\<close>

subsection \<open>Rows and documents\<close>

lemma documents_of_rows_map: "documents_of_rows rs = map make_document rs"
  by (induction rs) simp_all

lemma name_kept_iff:
  "''Name'' \<in> set cols \<Longrightarrow>
   (frame_row cols r ''Name'' \<noteq> Some NaN) = (r ''Name'' \<notin> set STR_NA_VALUES)"
  by (simp add: frame_row_def na_filter_def)

lemma dropna_after_read:
  assumes "''Name'' \<in> set cols"
  shows "filter (\<lambda>row. row ''Name'' \<noteq> Some NaN) (map (frame_row cols) rs) =
         map (frame_row cols) (filter (\<lambda>r. r ''Name'' \<notin> set STR_NA_VALUES) rs)"
  using assms by (simp add: filter_map o_def name_kept_iff)

lemma load_and_prepare_data_eq:
  assumes "''Name'' \<in> set (header t)"
  shows "load_and_prepare_data (Some t) =
           Inr (map (\<lambda>r. make_document (fill_row (frame_row (header t) r)))
                    (filter (\<lambda>r. r ''Name'' \<notin> set STR_NA_VALUES) (records t)))"
proof -
  from assms have ne: "header t \<noteq> []" by auto
  show ?thesis
    using assms ne
    by (simp add: load_and_prepare_data_def read_csv_def dropna_Name_def fillna_def
        documents_of_rows_map dropna_after_read o_def)
qed




subsection \<open>The pricing field\<close>

lemma drop_spaces_stops_here:
  assumes "\<not> isspace c" "\<forall>code \<in> set codes. c \<notin> set code"
  shows "drop_spaces codes (c # ws) = c # ws"
proof -
  have first: "[c, b] \<notin> set codes" "[c, b, d] \<notin> set codes" for b d
    using assms(2) by auto
  show ?thesis
  proof (cases ws)
    case Nil
    then show ?thesis using assms(1) by simp
  next
    case (Cons b t)
    then show ?thesis using assms(1) first by (cases t) simp_all
  qed
qed

lemma drop_spaces_stops:
  "\<not> isspace c \<Longrightarrow> \<forall>code \<in> set codes. c \<notin> set code \<Longrightarrow>
   drop_spaces codes (zs @ c # ws) = drop_spaces codes zs @ c # ws"
proof (induction codes zs rule: drop_spaces.induct)
  case (1 codes)
  from drop_spaces_stops_here [OF 1, of ws] show ?case
    by (simp only: append_Nil drop_spaces.simps(1))
next
  case (2 codes a s)
  have second: "[a, c] \<notin> set codes" "[a, c, d] \<notin> set codes" for d
    using "2.prems"(2) by auto
  have third: "[a, b, c] \<notin> set codes" for b
    using "2.prems"(2) by auto
  show ?case
  proof (cases "isspace a")
    case True
    with 2 show ?thesis by simp
  next
    case False
    note a = this
    show ?thesis
    proof (cases s)
      case Nil
      then show ?thesis using a second by (cases ws) simp_all
    next
      case (Cons b t)
      note s = this
      show ?thesis
      proof (cases "[a, b] \<in> set codes")
        case True
        with a s 2 show ?thesis by simp
      next
        case False
        note ab = this
        show ?thesis
        proof (cases t)
          case Nil
          with a s ab third show ?thesis by simp
        next
          case (Cons d u)
          note t = this
          show ?thesis
          proof (cases "[a, b, d] \<in> set codes")
            case True
            with a s ab t 2 show ?thesis by simp
          next
            case False
            with a s ab t show ?thesis by simp
          qed
        qed
      qed
    qed
  qed
qed

lemma not_in_unicode_spaces:
  "\<forall>code \<in> set unicode_spaces. CHR ''T'' \<notin> set code"
  "\<forall>code \<in> set (map rev unicode_spaces). CHR '':'' \<notin> set code"
  by (simp_all add: unicode_spaces_def)

lemma rstrip_nonspace:
  assumes "\<not> isspace c" "\<forall>code \<in> set (map rev unicode_spaces). c \<notin> set code"
  shows "rstrip (xs @ c # ys) = xs @ c # rstrip ys"
  using drop_spaces_stops [OF assms, of "rev ys" "rev xs"]
  by (simp add: rstrip_def)

lemma rstrip_snoc_space: "isspace c \<Longrightarrow> rstrip (xs @ [c]) = rstrip xs"
  by (simp add: rstrip_def)

lemma isspace_newline: "isspace CHR ''\<newline>''"
  by (simp add: isspace_def)

lemma isspace_blank: "isspace CHR '' ''"
  by (simp add: isspace_def)

lemma not_isspace_colon: "\<not> isspace CHR '':''"
  by (simp add: isspace_def)

lemma not_isspace_T: "\<not> isspace CHR ''T''"
  by (simp add: isspace_def)

lemma rstrip_blank: "rstrip '' '' = []"
  by (simp add: rstrip_def isspace_blank)

lemma text_content_explicit:
  "text_content row =
     ''Tool Name: '' @ series_get row ''Name'' '''' @
     ''\<newline>\<newline>Category: '' @ series_get row ''Category'' '''' @
     ''\<newline>\<newline>Primary Task: '' @ series_get row ''Primary Task'' '''' @
     ''\<newline>\<newline>Description: '' @ series_get row ''Short Description'' '''' @
     ''\<newline>\<newline>Keywords: '' @ series_get row ''Keywords'' '''' @
     ''\<newline>\<newline>Technologies: '' @ series_get row ''technologies'' '''' @
     ''\<newline>\<newline>Industry: '' @ series_get row ''industry'' '''' @
     ''\<newline>\<newline>Pricing: '' @ series_get row ''Pricing'' ''Not specified'' @
     ''\<newline>\<newline>Country: '' @ series_get row ''Country'' '''' @
     ''\<newline>\<newline>Year Founded: '' @ series_get row ''Year Founded'' '''' @
     ''\<newline>\<newline>Website:'' @ rstrip ('' '' @ series_get row ''Website'' '''')"
proof -
  define body where "body =
     ''Tool Name: '' @ series_get row ''Name'' '''' @
     ''\<newline>\<newline>Category: '' @ series_get row ''Category'' '''' @
     ''\<newline>\<newline>Primary Task: '' @ series_get row ''Primary Task'' '''' @
     ''\<newline>\<newline>Description: '' @ series_get row ''Short Description'' '''' @
     ''\<newline>\<newline>Keywords: '' @ series_get row ''Keywords'' '''' @
     ''\<newline>\<newline>Technologies: '' @ series_get row ''technologies'' '''' @
     ''\<newline>\<newline>Industry: '' @ series_get row ''industry'' '''' @
     ''\<newline>\<newline>Pricing: '' @ series_get row ''Pricing'' ''Not specified'' @
     ''\<newline>\<newline>Country: '' @ series_get row ''Country'' '''' @
     ''\<newline>\<newline>Year Founded: '' @ series_get row ''Year Founded'' '''' @
     ''\<newline>\<newline>Website''"
  define web where "web = '' '' @ series_get row ''Website'' ''''"
  have tmpl: "text_template row = CHR ''\<newline>'' # (body @ CHR '':'' # (web @ [CHR ''\<newline>'']))"
    by (simp add: text_template_def body_def web_def)
  have "\<exists>rest. body = CHR ''T'' # rest"
    by (simp add: body_def)
  then obtain rest where rest: "body = CHR ''T'' # rest" by blast
  have "drop_spaces unicode_spaces (CHR ''T'' # (rest @ CHR '':'' # (web @ [CHR ''\<newline>''])))
      = CHR ''T'' # (rest @ CHR '':'' # (web @ [CHR ''\<newline>'']))"
    using drop_spaces_stops [OF not_isspace_T not_in_unicode_spaces(1), of "[]"]
    by simp
  then have "lstrip (text_template row) = body @ CHR '':'' # (web @ [CHR ''\<newline>''])"
    unfolding tmpl by (simp add: lstrip_def isspace_newline rest)
  then have "text_content row = rstrip (body @ CHR '':'' # (web @ [CHR ''\<newline>'']))"
    by (simp add: text_content_def strip_def)
  also have "\<dots> = body @ CHR '':'' # rstrip (web @ [CHR ''\<newline>''])"
    by (rule rstrip_nonspace [OF not_isspace_colon not_in_unicode_spaces(2)])
  also have "rstrip (web @ [CHR ''\<newline>'']) = rstrip web"
    by (rule rstrip_snoc_space [OF isspace_newline])
  finally show ?thesis
    by (simp add: body_def web_def)
qed

text \<open>
  C4. A record that is kept and whose \<^verbatim>\<open>Pricing\<close> field is empty: the document's
  text has an empty \<^verbatim>\<open>Pricing:\<close> line and its metadata an empty \<^verbatim>\<open>pricing\<close>, where
  the claim has \<^verbatim>\<open>Not specified\<close>. \<^verbatim>\<open>fillna("")\<close> has replaced the missing value
  before \<^verbatim>\<open>row.get('Pricing', 'Not specified')\<close> looks it up.
\<close>

theorem missing_pricing_is_empty:
  "load_and_prepare_data (Some unpriced_catalog) =
     Inr [\<lparr>page_content =
              ''Tool Name: Midjourney\<newline>\<newline>Category: \<newline>\<newline>Primary Task: '' @
              ''\<newline>\<newline>Description: \<newline>\<newline>Keywords: \<newline>\<newline>Technologies: '' @
              ''\<newline>\<newline>Industry: \<newline>\<newline>Pricing: \<newline>\<newline>Country: '' @
              ''\<newline>\<newline>Year Founded: \<newline>\<newline>Website:'',
            metadata =
              [(''name'', ''Midjourney''), (''category'', []), (''primary_task'', []),
               (''pricing'', []), (''website'', []), (''country'', []),
               (''year_founded'', []), (''technologies'', [])]\<rparr>]"
  by (simp add: load_and_prepare_data_eq unpriced_catalog_def STR_NA_VALUES_def
      make_document_def text_content_explicit metadata_of_def series_get_def
      fill_row_def frame_row_def na_filter_def rstrip_blank)

subsection \<open>The canonical text\<close>

text \<open>
  C5. The text of a document is the labelled fields in the order Name, Category,
  Primary Task, Description, Keywords, Technologies, Industry, Pricing, Country,
  Year Founded, Website, every label at the start of a line after an empty line;
  \<^verbatim>\<open>strip\<close> removes the whitespace that ends the last line. The text is a function
  of the eleven fields: two rows that agree on them have the same text.
\<close>

theorem canonical_text_fixed_order:
  "text_content row =
     ''Tool Name: '' @ series_get row ''Name'' '''' @
     ''\<newline>\<newline>Category: '' @ series_get row ''Category'' '''' @
     ''\<newline>\<newline>Primary Task: '' @ series_get row ''Primary Task'' '''' @
     ''\<newline>\<newline>Description: '' @ series_get row ''Short Description'' '''' @
     ''\<newline>\<newline>Keywords: '' @ series_get row ''Keywords'' '''' @
     ''\<newline>\<newline>Technologies: '' @ series_get row ''technologies'' '''' @
     ''\<newline>\<newline>Industry: '' @ series_get row ''industry'' '''' @
     ''\<newline>\<newline>Pricing: '' @ series_get row ''Pricing'' ''Not specified'' @
     ''\<newline>\<newline>Country: '' @ series_get row ''Country'' '''' @
     ''\<newline>\<newline>Year Founded: '' @ series_get row ''Year Founded'' '''' @
     ''\<newline>\<newline>Website:'' @ rstrip ('' '' @ series_get row ''Website'' '''') \<and>
   (row' ''Name'' = row ''Name'' \<and> row' ''Category'' = row ''Category'' \<and>
    row' ''Primary Task'' = row ''Primary Task'' \<and>
    row' ''Short Description'' = row ''Short Description'' \<and>
    row' ''Keywords'' = row ''Keywords'' \<and> row' ''technologies'' = row ''technologies'' \<and>
    row' ''industry'' = row ''industry'' \<and> row' ''Pricing'' = row ''Pricing'' \<and>
    row' ''Country'' = row ''Country'' \<and> row' ''Year Founded'' = row ''Year Founded'' \<and>
    row' ''Website'' = row ''Website'' \<longrightarrow>
    text_content row' = text_content row)"
proof (intro conjI impI)
  show "text_content row =
     ''Tool Name: '' @ series_get row ''Name'' '''' @
     ''\<newline>\<newline>Category: '' @ series_get row ''Category'' '''' @
     ''\<newline>\<newline>Primary Task: '' @ series_get row ''Primary Task'' '''' @
     ''\<newline>\<newline>Description: '' @ series_get row ''Short Description'' '''' @
     ''\<newline>\<newline>Keywords: '' @ series_get row ''Keywords'' '''' @
     ''\<newline>\<newline>Technologies: '' @ series_get row ''technologies'' '''' @
     ''\<newline>\<newline>Industry: '' @ series_get row ''industry'' '''' @
     ''\<newline>\<newline>Pricing: '' @ series_get row ''Pricing'' ''Not specified'' @
     ''\<newline>\<newline>Country: '' @ series_get row ''Country'' '''' @
     ''\<newline>\<newline>Year Founded: '' @ series_get row ''Year Founded'' '''' @
     ''\<newline>\<newline>Website:'' @ rstrip ('' '' @ series_get row ''Website'' '''')"
    by (rule text_content_explicit)
next
  assume "row' ''Name'' = row ''Name'' \<and> row' ''Category'' = row ''Category'' \<and>
    row' ''Primary Task'' = row ''Primary Task'' \<and>
    row' ''Short Description'' = row ''Short Description'' \<and>
    row' ''Keywords'' = row ''Keywords'' \<and> row' ''technologies'' = row ''technologies'' \<and>
    row' ''industry'' = row ''industry'' \<and> row' ''Pricing'' = row ''Pricing'' \<and>
    row' ''Country'' = row ''Country'' \<and> row' ''Year Founded'' = row ''Year Founded'' \<and>
    row' ''Website'' = row ''Website''"
  then have "text_template row' = text_template row"
    by (simp add: text_template_def series_get_def)
  then show "text_content row' = text_content row"
    by (simp add: text_content_def)
qed

theorem canonical_text_fixed_order_witness:
  "text_content example_row =
     ''Tool Name: ChatGPT\<newline>\<newline>Category: \<newline>\<newline>Primary Task: '' @
     ''\<newline>\<newline>Description: \<newline>\<newline>Keywords: \<newline>\<newline>Technologies: '' @
     ''\<newline>\<newline>Industry: \<newline>\<newline>Pricing: Not specified\<newline>\<newline>Country: '' @
     ''\<newline>\<newline>Year Founded: \<newline>\<newline>Website: https://chat.openai.com'' \<and>
   text_content example_row_rated = text_content example_row"
  using canonical_text_fixed_order [of example_row example_row_rated]
  by (simp add: example_row_def example_row_rated_def series_get_def rstrip_def isspace_def
      unicode_spaces_def)

subsection \<open>The build writes all or nothing\<close>

lemma embed_documents_fails:
  "t \<in> set ts \<Longrightarrow> embed_text svc t = Inl e \<Longrightarrow>
   \<exists>e' tr'. embed_documents svc ts tr = (Inl e', tr')"
proof (induction ts arbitrary: tr)
  case Nil
  then show ?case by simp
next
  case (Cons a ts)
  show ?case
  proof (cases "embed_text svc a")
    case (Inl e0)
    then show ?thesis by simp
  next
    case (Inr v)
    with Cons.prems have "t \<in> set ts" by auto
    from Cons.IH [OF this Cons.prems(2)] obtain e' tr'
      where "embed_documents svc ts (tr @ [Embedding a]) = (Inl e', tr')" by blast
    with Inr show ?thesis by simp
  qed
qed

lemma embed_documents_succeeds:
  "embed_documents svc ts tr = (Inr vs, tr') \<Longrightarrow> map (embed_text svc) ts = map Inr vs"
proof (induction ts arbitrary: tr vs)
  case Nil
  then show ?case by simp
next
  case (Cons a ts)
  then show ?case
    by (auto split: sum.splits prod.splits)
qed

lemma build_vectorstore_index:
  "index_dir (snd (build_vectorstore svc docs w)) = index_dir w \<or>
   (\<exists>vs. map (embed_text svc) (map page_content docs) = map Inr vs \<and>
         index_dir (snd (build_vectorstore svc docs w)) = Some (zip vs docs))"
  by (auto simp: build_vectorstore_def FAISS_from_documents_def
      split: sum.splits prod.splits if_splits dest: embed_documents_succeeds)

lemma build_vectorstore_fails:
  assumes "d \<in> set docs" "embed_text svc (page_content d) = Inl e"
  shows "index_dir (snd (build_vectorstore svc docs w)) = index_dir w"
proof -
  from assms have "page_content d \<in> set (map page_content docs)" by simp
  from embed_documents_fails [OF this assms(2)] obtain e' tr'
    where "embed_documents svc (map page_content docs) (calls w) = (Inl e', tr')" by blast
  then show ?thesis
    by (simp add: build_vectorstore_def FAISS_from_documents_def split: sum.splits)
qed

lemma ingest_main_index:
  "index_dir (snd (ingest_main svc w)) = index_dir w \<or>
   (\<exists>docs. load_and_prepare_data (csv_file w) = Inr docs \<and>
      index_dir (snd (ingest_main svc w)) = index_dir (snd (build_vectorstore svc docs w)))"
  by (auto simp: ingest_main_def split: sum.splits prod.splits)

text \<open>
  C1. Whatever the documents: when the embedding of one of them fails, the run
  of \<^verbatim>\<open>main\<close> leaves the index directory as it found it, with a saved index or
  without; and when the run changes the index directory, every document has
  been embedded and the directory holds the index of all of them.
\<close>

theorem index_build_all_or_nothing:
  "(\<forall>docs. load_and_prepare_data (csv_file w) = Inr docs \<longrightarrow>
      (\<exists>d \<in> set docs. \<exists>e. embed_text svc (page_content d) = Inl e) \<longrightarrow>
      index_dir (snd (ingest_main svc w)) = index_dir w) \<and>
   (index_dir (snd (ingest_main svc w)) \<noteq> index_dir w \<longrightarrow>
      (\<exists>docs vs. load_and_prepare_data (csv_file w) = Inr docs \<and>
         map (\<lambda>d. embed_text svc (page_content d)) docs = map Inr vs \<and>
         index_dir (snd (ingest_main svc w)) = Some (zip vs docs)))"
proof (intro conjI allI impI)
  fix docs
  assume load: "load_and_prepare_data (csv_file w) = Inr docs"
    and bad: "\<exists>d \<in> set docs. \<exists>e. embed_text svc (page_content d) = Inl e"
  from bad obtain d e where "d \<in> set docs" "embed_text svc (page_content d) = Inl e" by blast
  then have "index_dir (snd (build_vectorstore svc docs w)) = index_dir w"
    by (rule build_vectorstore_fails)
  with ingest_main_index [of svc w] load
  show "index_dir (snd (ingest_main svc w)) = index_dir w" by auto
next
  assume changed: "index_dir (snd (ingest_main svc w)) \<noteq> index_dir w"
  with ingest_main_index [of svc w] obtain docs
    where load: "load_and_prepare_data (csv_file w) = Inr docs"
      and eq: "index_dir (snd (ingest_main svc w)) = index_dir (snd (build_vectorstore svc docs w))"
    by blast
  from changed eq build_vectorstore_index [of svc docs w] obtain vs
    where "map (embed_text svc) (map page_content docs) = map Inr vs"
      and "index_dir (snd (build_vectorstore svc docs w)) = Some (zip vs docs)"
    by auto
  with load eq
  show "\<exists>docs vs. load_and_prepare_data (csv_file w) = Inr docs \<and>
         map (\<lambda>d. embed_text svc (page_content d)) docs = map Inr vs \<and>
         index_dir (snd (ingest_main svc w)) = Some (zip vs docs)"
    by (auto simp: o_def)
qed

lemma example_world_fields:
  "api_key example_world = Some ''sk-test''"
  "csv_file example_world = Some unpriced_catalog"
  "index_dir example_world = None"
  "calls example_world = []"
  by (simp_all add: example_world_def)

lemma unpriced_catalog_documents:
  "\<exists>d. load_and_prepare_data (Some unpriced_catalog) = Inr [d]"
  by (simp add: load_and_prepare_data_eq unpriced_catalog_def STR_NA_VALUES_def)

lemma example_world_builds:
  "index_dir (snd (ingest_main working_services example_world)) \<noteq> None"
proof -
  from unpriced_catalog_documents obtain d
    where d: "load_and_prepare_data (Some unpriced_catalog) = Inr [d]" by blast
  show ?thesis
    by (simp add: ingest_main_def example_world_fields d build_vectorstore_def
        FAISS_from_documents_def openai_client_def working_services_def)
qed

theorem index_build_all_or_nothing_witness:
  "index_dir (snd (ingest_main failing_services
       (example_world\<lparr>index_dir := Some [(17, example_document)]\<rparr>))) =
     Some [(17, example_document)] \<and>
   (\<exists>docs vs. load_and_prepare_data (csv_file example_world) = Inr docs \<and>
      map (\<lambda>d. embed_text working_services (page_content d)) docs = map Inr vs \<and>
      index_dir (snd (ingest_main working_services example_world)) = Some (zip vs docs))"
proof
  let ?w = "example_world\<lparr>index_dir := Some [(17, example_document)]\<rparr>"
  from unpriced_catalog_documents obtain d
    where d: "load_and_prepare_data (csv_file ?w) = Inr [d]"
    by (auto simp: example_world_fields)
  have bad: "\<exists>x \<in> set [d]. \<exists>e. embed_text failing_services (page_content x) = Inl e"
    by (simp add: failing_services_def)
  from index_build_all_or_nothing [of ?w failing_services] d bad
  show "index_dir (snd (ingest_main failing_services ?w)) = Some [(17, example_document)]"
    by simp
next
  have "index_dir (snd (ingest_main working_services example_world)) \<noteq> index_dir example_world"
    using example_world_builds by (simp add: example_world_fields)
  with index_build_all_or_nothing [of example_world working_services]
  show "\<exists>docs vs. load_and_prepare_data (csv_file example_world) = Inr docs \<and>
      map (\<lambda>d. embed_text working_services (page_content d)) docs = map Inr vs \<and>
      index_dir (snd (ingest_main working_services example_world)) = Some (zip vs docs)"
    by blast
qed

section \<open>Properties of app.py\<close>

subsection \<open>Parts of a script run\<close>

lemma sidebar_fields [simp]:
  "messages (sidebar w s) = messages s"
  "conversation (sidebar w s) = conversation s"
  "vectorstore_loaded (sidebar w s) = vectorstore_loaded s"
  by (simp_all add: sidebar_def Let_def)

lemma take_input_fields:
  assumes "take_input w s = (u, s2)"
  shows "messages s2 = messages s" "conversation s2 = conversation s"
    "vectorstore_loaded s2 = vectorstore_loaded s"
  using assms by (auto simp: take_input_def split: option.splits)

lemma take_input_loaded_irrelevant:
  "fst (take_input w (s\<lparr>vectorstore_loaded := b\<rparr>)) = fst (take_input w s)"
  by (simp add: take_input_def split: option.splits)

lemma environ_key_cong:
  "env_key p' = env_key p \<Longrightarrow> secrets p' = secrets p \<Longrightarrow> environ_key p' = environ_key p"
  by (simp add: environ_key_def cong: option.case_cong)

lemma load_vectorstore_body_cong:
  assumes "env_key p' = env_key p" "secrets p' = secrets p" "disk_index p' = disk_index p"
  shows "load_vectorstore_body p' = load_vectorstore_body p"
  by (simp add: load_vectorstore_body_def environ_key_cong [OF assms(1,2)] assms(3)
      cong: sum.case_cong)

lemma init_session_unavailable:
  fixes p :: "'a process"
  assumes cache: "vectorstore_cache p = None \<or> vectorstore_cache p = Some (load_failed e)"
    and body: "load_vectorstore_body p = load_failed e"
    and conv: "conversation (sessions p sid) = None"
  shows "init_session sid p =
     (None, snd (load_failed e :: 'a index option \<times> ui list),
      p\<lparr>vectorstore_cache := Some (load_failed e),
        sessions := (sessions p)(sid := (sessions p sid)\<lparr>vectorstore_loaded := Some False\<rparr>)\<rparr>)"
  using cache
proof
  assume "vectorstore_cache p = None"
  then show ?thesis using body conv
    by (simp add: init_session_def load_vectorstore_def load_failed_def)
next
  assume c: "vectorstore_cache p = Some (load_failed e)"
  then have "p\<lparr>vectorstore_cache := Some (load_failed e)\<rparr> = p" by simp
  then show ?thesis using conv c
    by (simp add: init_session_def load_vectorstore_def load_failed_def)
qed

lemma handle_input_not_loaded:
  "vectorstore_loaded (sessions p sid) \<noteq> Some True \<Longrightarrow>
   handle_input svc w sid text p =
     ([ChatMessage ''user'' text, StError ''Vectorstore not loaded. Please check the setup.''],
      append_message sid (''user'', text) p)"
  by (simp add: handle_input_def Let_def append_message_def)

text \<open>
  A run of \<^verbatim>\<open>main\<close> for a session without a chain, in a process whose index could
  not be loaded: what it returns, written out.
\<close>

lemma app_main_unavailable:
  fixes p :: "'a process"
  assumes cache: "vectorstore_cache p = None \<or> vectorstore_cache p = Some (load_failed e)"
    and body: "load_vectorstore_body p = load_failed e"
    and conv: "conversation (sessions p sid) = None"
    and ti: "take_input w (sidebar w (sessions p sid)\<lparr>vectorstore_loaded := Some False\<rparr>) = (u, s2)"
  shows "app_main svc w sid p =
     (Completed,
      snd (load_failed e :: 'a index option \<times> ui list) @
      map (\<lambda>(r, c). ChatMessage r c) (messages (sessions p sid)) @
      (case u of None \<Rightarrow> []
       | Some text \<Rightarrow>
           if text = [] then []
           else [ChatMessage ''user'' text,
                 StError ''Vectorstore not loaded. Please check the setup.'']),
      p\<lparr>vectorstore_cache := Some (load_failed e),
        sessions := (sessions p)
          (sid := s2\<lparr>messages := messages s2 @
                    (case u of None \<Rightarrow> []
                     | Some text \<Rightarrow> if text = [] then [] else [(''user'', text)])\<rparr>)\<rparr>)"
proof -
  let ?p0 = "p\<lparr>sessions := (sessions p)(sid := sidebar w (sessions p sid))\<rparr>"
  have "vectorstore_cache ?p0 = None \<or> vectorstore_cache ?p0 = Some (load_failed e)"
    "load_vectorstore_body ?p0 = load_failed e" "conversation (sessions ?p0 sid) = None"
    using cache body conv
    by (simp_all add: load_vectorstore_body_cong [of "p\<lparr>sessions := f\<rparr>" p for f])
  note init = init_session_unavailable [OF this]
  note tf = take_input_fields [OF ti]
  have m: "messages s2 = messages (sessions p sid)" using tf by simp
  let ?p2 = "p\<lparr>vectorstore_cache := Some (load_failed e), sessions := (sessions p)(sid := s2)\<rparr>"
  have nl: "vectorstore_loaded (sessions ?p2 sid) \<noteq> Some True" using tf by simp
  note h = handle_input_not_loaded [OF nl, of svc w]
  show ?thesis
  proof (cases u)
    case None
    with ti show ?thesis
      by (simp add: app_main_def Let_def init m [symmetric])
  next
    case (Some q)
    show ?thesis
    proof (cases "q = []")
      case True
      with Some ti show ?thesis
        by (simp add: app_main_def Let_def init m [symmetric])
    next
      case False
      with Some ti show ?thesis
        by (simp add: app_main_def Let_def init m [symmetric] h append_message_def)
    qed
  qed
qed

lemma app_script_configured:
  "key_configured p \<Longrightarrow> app_script svc w sid p = app_main svc w sid p"
  by (auto simp: app_script_def key_configured_def split: option.splits)


subsection \<open>Serving without an index\<close>




lemma unindexed_process_fields:
  "key_configured unindexed_process"
  "vectorstore_cache unindexed_process = None"
  "load_vectorstore_body unindexed_process =
     load_failed (RuntimeError ''could not open vectorstore/index.faiss for reading'')"
  "\<forall>sid. conversation (sessions unindexed_process sid) = None"
  "trace unindexed_process = []"
  by (simp_all add: unindexed_process_def fresh_process_def key_configured_def
      load_vectorstore_body_def environ_key_def openai_client_def load_local_def
      new_session_def)


subsection \<open>Input without a loaded vectorstore\<close>

text \<open>
  C10. The vectorstore is not loaded (the load failed with exception \<open>e\<close>, in
  this run or in an earlier one) and the user submits the non-empty input \<open>q\<close>,
  typed or through a suggested prompt. The run records the user's message and
  nothing after it: the history ends with the unanswered user turn, and the run
  only shows the error \<^verbatim>\<open>Vectorstore not loaded\<close>.
\<close>

theorem input_without_vectorstore_is_unanswered:
  fixes p :: "'a process"
  assumes "key_configured p"
    and "vectorstore_cache p = None \<or> vectorstore_cache p = Some (load_failed e)"
    and "load_vectorstore_body p = load_failed e"
    and "conversation (sessions p sid) = None"
    and "fst (take_input w (sidebar w (sessions p sid))) = Some q"
    and "q \<noteq> []"
  shows "\<exists>shown p'. app_script svc w sid p = (Completed, shown, p') \<and>
     messages (sessions p' sid) = messages (sessions p sid) @ [(''user'', q)] \<and>
     last (messages (sessions p' sid)) = (''user'', q) \<and>
     StError ''Vectorstore not loaded. Please check the setup.'' \<in> set shown \<and>
     trace p' = trace p \<and> heap p' = heap p"
proof -
  obtain u s2
    where ti: "take_input w (sidebar w (sessions p sid)\<lparr>vectorstore_loaded := Some False\<rparr>) = (u, s2)"
    by (cases "take_input w (sidebar w (sessions p sid)\<lparr>vectorstore_loaded := Some False\<rparr>)") auto
  have "u = Some q"
    using ti assms(5) take_input_loaded_irrelevant
      [where w = w and s = "sidebar w (sessions p sid)" and b = "Some False"]
    by simp
  moreover have "messages s2 = messages (sessions p sid)"
    using take_input_fields(1) [OF ti] by simp
  ultimately show ?thesis
    using app_main_unavailable [OF assms(2,3,4) ti, of svc] assms(1,6)
    by (simp add: app_script_configured)
qed

theorem input_without_vectorstore_is_unanswered_witness:
  "\<exists>shown p'. app_script working_services (typed ''hello'') 1 unindexed_process =
       (Completed, shown, p') \<and>
     messages (sessions p' 1) = [(''user'', ''hello'')] \<and> trace p' = []"
proof -
  have a: "vectorstore_cache unindexed_process = None \<or>
      vectorstore_cache unindexed_process =
        Some (load_failed (RuntimeError ''could not open vectorstore/index.faiss for reading''))"
    by (simp add: unindexed_process_fields)
  have b: "conversation (sessions unindexed_process 1) = None"
    by (simp add: unindexed_process_fields)
  have c: "fst (take_input (typed ''hello'') (sidebar (typed ''hello'') (sessions unindexed_process 1)))
      = Some ''hello''"
    by (simp add: take_input_def sidebar_def typed_def unindexed_process_def fresh_process_def
        new_session_def)
  have d: "''hello'' \<noteq> []" by simp
  have m: "messages (sessions unindexed_process 1) = []"
    by (simp add: unindexed_process_def fresh_process_def new_session_def)
  from input_without_vectorstore_is_unanswered
    [OF unindexed_process_fields(1) a unindexed_process_fields(3) b c d, of working_services] m
  show ?thesis
    by (auto simp: unindexed_process_fields(5))
qed

subsection \<open>A provider failure during serving\<close>

lemma invoke_chain_raises:
  "fst (invoke_chain svc ch q tr) = Inl e \<Longrightarrow> fst (snd (invoke_chain svc ch q tr)) = ch"
  by (auto simp: invoke_chain_def Let_def split: if_splits sum.splits prod.splits)

lemma handle_input_raises:
  assumes conv: "conversation (sessions p sid) = Some a" "a < length (heap p)"
    and loaded: "vectorstore_loaded (sessions p sid) = Some True"
    and raises: "fst (invoke_chain svc (heap p ! a) (q @ pricing_hint (pricing_filter w)) (trace p)) = Inl e"
  shows "\<exists>p'. handle_input svc w sid q p =
           ([ChatMessage ''user'' q, StError (''Error: '' @ str_error e)], p') \<and>
         messages (sessions p' sid) =
           messages (sessions p sid) @ [(''user'', q), (''assistant'', ''Error: '' @ str_error e)] \<and>
         heap p' = heap p \<and>
         (\<forall>sid'. sid' \<noteq> sid \<longrightarrow> sessions p' sid' = sessions p sid')"
proof -
  obtain res ch' tr' where inv:
    "invoke_chain svc (heap p ! a) (q @ pricing_hint (pricing_filter w)) (trace p) = (res, ch', tr')"
    by (cases "invoke_chain svc (heap p ! a) (q @ pricing_hint (pricing_filter w)) (trace p)") auto
  from raises inv have res: "res = Inl e" by simp
  from invoke_chain_raises [OF raises] inv have ch': "ch' = heap p ! a" by simp
  show ?thesis
    using conv loaded
    by (simp add: handle_input_def Let_def append_message_def call_conversation_def inv res ch')
qed

text \<open>
  C6. A session has its chain and \<^verbatim>\<open>vectorstore_loaded\<close> set; the user submits the
  non-empty input \<open>q\<close> and the call of the chain raises \<open>e\<close> (an embedding or a
  completion failed). The script run completes: it shows \<^verbatim>\<open>Error: \<close>\<open>e\<close>, the
  session's history is the earlier messages, unchanged, followed by the user's
  message and the assistant message \<^verbatim>\<open>Error: \<close>\<open>e\<close>; the chain's memory and the
  other sessions are as before.
\<close>

theorem provider_failure_is_recorded_as_assistant_turn:
  assumes key: "key_configured p"
    and conv: "conversation (sessions p sid) = Some a" "a < length (heap p)"
    and loaded: "vectorstore_loaded (sessions p sid) = Some True"
    and input: "take_input w (sidebar w (sessions p sid)) = (Some q, s2)" "q \<noteq> []"
    and raises: "fst (invoke_chain svc (heap p ! a) (q @ pricing_hint (pricing_filter w)) (trace p)) = Inl e"
  shows "\<exists>shown p'. app_script svc w sid p = (Completed, shown, p') \<and>
         StError (''Error: '' @ str_error e) \<in> set shown \<and>
         messages (sessions p' sid) =
           messages (sessions p sid) @ [(''user'', q), (''assistant'', ''Error: '' @ str_error e)] \<and>
         heap p' = heap p \<and>
         (\<forall>sid'. sid' \<noteq> sid \<longrightarrow> sessions p' sid' = sessions p sid')"
proof -
  let ?p2 = "p\<lparr>sessions := (sessions p)(sid := s2)\<rparr>"
  note tf = take_input_fields [OF input(1)]
  have init: "init_session sid (p\<lparr>sessions := (sessions p)(sid := sidebar w (sessions p sid))\<rparr>)
      = (None, [], p\<lparr>sessions := (sessions p)(sid := sidebar w (sessions p sid))\<rparr>)"
    using conv by (simp add: init_session_def)
  have "conversation (sessions ?p2 sid) = Some a" "a < length (heap ?p2)"
    "vectorstore_loaded (sessions ?p2 sid) = Some True"
    "fst (invoke_chain svc (heap ?p2 ! a) (q @ pricing_hint (pricing_filter w)) (trace ?p2)) = Inl e"
    using conv loaded raises tf by simp_all
  from handle_input_raises [OF this] obtain p' where h:
    "handle_input svc w sid q ?p2 =
       ([ChatMessage ''user'' q, StError (''Error: '' @ str_error e)], p')"
    "messages (sessions p' sid) =
       messages (sessions ?p2 sid) @ [(''user'', q), (''assistant'', ''Error: '' @ str_error e)]"
    "heap p' = heap ?p2"
    "\<forall>sid'. sid' \<noteq> sid \<longrightarrow> sessions p' sid' = sessions ?p2 sid'"
    by blast
  have "app_main svc w sid p =
      (Completed, map (\<lambda>(r, c). ChatMessage r c) (messages (sessions p sid)) @
         [ChatMessage ''user'' q, StError (''Error: '' @ str_error e)], p')"
    using input h(1) by (simp add: app_main_def Let_def init)
  with h(2-4) tf key show ?thesis
    by (simp add: app_script_configured)
qed

lemma loaded_process_fields:
  "key_configured loaded_process"
  "conversation (sessions loaded_process 1) = Some 0"
  "0 < length (heap loaded_process)"
  "vectorstore_loaded (sessions loaded_process 1) = Some True"
  "messages (sessions loaded_process 1) = [(''user'', ''hi''), (''assistant'', ''ok'')]"
  "heap loaded_process =
     [\<lparr>chain_index = [(17, example_document)], chat_memory = [(Human, ''hi''), (AI, ''ok'')]\<rparr>]"
  "trace loaded_process = []"
  by (simp_all add: loaded_process_def key_configured_def)

theorem provider_failure_is_recorded_as_assistant_turn_witness:
  "\<exists>shown p'. app_script failing_services (typed ''more'') 1 loaded_process =
       (Completed, shown, p') \<and>
     messages (sessions p' 1) =
       [(''user'', ''hi''), (''assistant'', ''ok''), (''user'', ''more''),
        (''assistant'', ''Error: quota exceeded'')] \<and>
     heap p' = heap loaded_process"
proof -
  have input: "take_input (typed ''more'') (sidebar (typed ''more'') (sessions loaded_process 1)) =
      (Some ''more'', sessions loaded_process 1)"
    by (simp add: take_input_def sidebar_def typed_def loaded_process_def)
  have ne: "''more'' \<noteq> []" by simp
  have raises: "fst (invoke_chain failing_services (heap loaded_process ! 0)
      (''more'' @ pricing_hint (pricing_filter (typed ''more''))) (trace loaded_process)) =
      Inl (ProviderError ''quota exceeded'')"
    by (simp add: loaded_process_fields invoke_chain_def Let_def failing_services_def)
  from provider_failure_is_recorded_as_assistant_turn
    [OF loaded_process_fields(1-4) input ne raises] loaded_process_fields(5)
  show ?thesis
    by auto
qed

subsection \<open>A missing API key\<close>

text \<open>
  C9. The environment has no key and there is no secrets file. The test of line
  237 evaluates \<^verbatim>\<open>st.secrets.get\<close>, which raises because there is no file: the
  script run ends with that exception, and the message of lines 238 to 244 is
  not shown. With a secrets file that has no key the same test shows the
  message, which says that the key was not found, and stops; and \<^verbatim>\<open>ingest.py\<close>
  without a key prints its report and returns with the world unchanged.
\<close>

theorem missing_secrets_file_raises_instead_of_message:
  "app_script working_services (typed ''hello'') 1 secretless_process =
     (Raised (FileNotFoundError ''No secrets files found''),
      [StException (FileNotFoundError ''No secrets files found'')],
      secretless_process) \<and>
   StError missing_key_message
     \<notin> set (fst (snd (app_script working_services (typed ''hello'') 1 secretless_process))) \<and>
   app_script working_services (typed ''hello'') 1 keyless_process =
     (Stopped, [StError missing_key_message], keyless_process) \<and>
   take 26 (drop 15 missing_key_message) = '' OpenAI API key not found!'' \<and>
   ingest_main working_services keyless_world = (banner @ missing_key_report, keyless_world)"
  by (simp add: app_script_def secretless_process_def keyless_process_def fresh_process_def
      missing_key_message_def ingest_main_def keyless_world_def example_world_def)

subsection \<open>Two sessions and one chain\<close>

lemma first_run:
  "app_script working_services (typed ''my password is hunter2'') 1 fresh_process =
     (Completed,
      [ChatMessage ''user'' ''my password is hunter2'', ChatMessage ''assistant'' ''ok'',
       SourcePreview 1 ''Tool Name: Claude...''],
      shared_process)"
  by (simp add: app_script_def app_main_def Let_def fresh_process_def typed_def sidebar_def
      init_session_def load_vectorstore_def load_vectorstore_body_def environ_key_def
      openai_client_def load_local_def get_conversation_chain_def take_input_def
      new_session_def
      handle_input_def append_message_def call_conversation_def invoke_chain_def
      working_services_def retriever_k_def pricing_hint_def source_previews_def
      example_document_def shared_process_def)

lemma second_run:
  "\<exists>shown p2. app_script working_services (typed ''hello'') 2 shared_process =
       (Completed, shown, p2) \<and>
     conversation (sessions p2 1) = Some 0 \<and> conversation (sessions p2 2) = Some 0 \<and>
     Completion (Condense [(Human, ''my password is hunter2''), (AI, ''ok'')] ''hello'')
       \<in> set (trace p2) \<and>
     messages (sessions p2 2) = [(''user'', ''hello''), (''assistant'', ''ok'')]"
  by (simp add: app_script_def app_main_def Let_def shared_process_def typed_def sidebar_def
      init_session_def load_vectorstore_def get_conversation_chain_def take_input_def
      new_session_def handle_input_def append_message_def call_conversation_def
      invoke_chain_def working_services_def retriever_k_def pricing_hint_def
      source_previews_def example_document_def)

text \<open>
  C2. A process starts with an index and a key. Session 1 asks a question that
  contains a secret; then session 2, which has submitted nothing before, asks
  \<^verbatim>\<open>hello\<close>. Both sessions hold the same chain object, the one that
  \<^verbatim>\<open>st.cache_resource\<close> keeps for \<^verbatim>\<open>get_conversation_chain\<close>, whose memory already has
  the turns of session 1: the language model is asked to rephrase \<^verbatim>\<open>hello\<close> given
  the chat history of session 1. The message list of session 2 shows nothing of it.
\<close>

theorem sessions_share_the_chain_memory:
  "conversation (sessions (snd (serve working_services
       [(typed ''my password is hunter2'', 1), (typed ''hello'', 2)] fresh_process)) 1) =
   conversation (sessions (snd (serve working_services
       [(typed ''my password is hunter2'', 1), (typed ''hello'', 2)] fresh_process)) 2) \<and>
   Completion (Condense [(Human, ''my password is hunter2''), (AI, ''ok'')] ''hello'')
     \<in> set (trace (snd (serve working_services
       [(typed ''my password is hunter2'', 1), (typed ''hello'', 2)] fresh_process))) \<and>
   messages (sessions (snd (serve working_services
       [(typed ''my password is hunter2'', 1), (typed ''hello'', 2)] fresh_process)) 2) =
     [(''user'', ''hello''), (''assistant'', ''ok'')]"
proof -
  from second_run obtain shown p2
    where run: "app_script working_services (typed ''hello'') 2 shared_process =
        (Completed, shown, p2)"
      and same: "conversation (sessions p2 1) = Some 0" "conversation (sessions p2 2) = Some 0"
      and seen: "Completion (Condense [(Human, ''my password is hunter2''), (AI, ''ok'')] ''hello'')
        \<in> set (trace p2)"
      and msgs: "messages (sessions p2 2) = [(''user'', ''hello''), (''assistant'', ''ok'')]"
    by blast
  have "snd (serve working_services
      [(typed ''my password is hunter2'', 1), (typed ''hello'', 2)] fresh_process) = p2"
    by (simp only: serve.simps first_run run prod.case snd_conv)
  with same seen msgs show ?thesis
    by (simp only:)
qed

end
